theory Spec2Isabelle
  imports Main
begin

section \<open>SimpleSTL::UniquePtr (src/SimpleSTL/UniquePtr.hpp)\<close>

subsection \<open>Handles, instances and the observable state\<close>

text \<open>
  A raw handle \<open>T *\<close> is a number; \<open>nullptr\<close> is 0, so the test \<open>if (m_p)\<close> of the source
  is \<open>m_p \<noteq> nullptr\<close>. An instance of \<open>UniquePtr\<close> is named by its address (\<open>this\<close>,
  \<open>&that\<close>), because move assignment compares addresses.
\<close>

type_synonym ptr = nat
type_synonym ref = nat

definition nullptr :: ptr where
  "nullptr = 0"

text \<open>
  Element types, as far as the templates of the file tell them apart: \<open>T[]\<close> and \<open>FILE\<close>
  select specializations, every other type is a \<open>Class\<close>.
\<close>

datatype ty = Class string | Arr ty | FILE

text \<open>
  The release policy is a type parameter. \<open>DefaultDeleter<T>\<close> is the only policy the file
  defines; a caller may pass a type of their own.
\<close>

datatype deleter = DefaultDeleter ty | UserDeleter string

datatype release_op = delete_single | delete_array | fclose_handle | user_op string

text \<open>
  Which \<open>operator()\<close> body a policy type has (lines 11-30): the partial specialization for
  \<open>T[]\<close> runs \<open>delete[] p\<close>, the full specialization for \<open>FILE\<close> runs \<open>fclose(p)\<close>, the
  primary template runs \<open>delete p\<close>.
\<close>

fun deleter_call :: "deleter \<Rightarrow> release_op" where
  "deleter_call (DefaultDeleter (Arr T)) = delete_array"
| "deleter_call (DefaultDeleter FILE) = fclose_handle"
| "deleter_call (DefaultDeleter (Class n)) = delete_single"
| "deleter_call (UserDeleter n) = user_op n"

text \<open>
  The state a program can observe: the member \<open>m_p\<close> of the instance at each address, the
  invocations \<open>Deleter{}(p)\<close> made so far, in program order, and the storage obtained from
  \<open>new\<close>.
\<close>

record world =
  mem :: "ref \<Rightarrow> ptr"
  calls :: "(deleter \<times> ptr) list"
  heap :: "ptr set"

text \<open>\<open>Deleter{}(p)\<close>: one invocation of the policy \<open>D\<close> on the handle \<open>p\<close>.\<close>

definition invoke :: "deleter \<Rightarrow> ptr \<Rightarrow> world \<Rightarrow> world" where
  "invoke D p w = w\<lparr>calls := calls w @ [(D, p)]\<rparr>"

subsection \<open>exchange (lines 33-39)\<close>

text \<open>
  \<open>exchange\<close> assigns through its first parameter \<open>T &dst\<close>. When the argument is a const
  lvalue, \<open>T\<close> is deduced const-qualified and the assignment \<open>dst = ...\<close> in the body is
  ill-formed: a program that instantiates such a call is rejected. The qualifier of the
  argument is therefore part of the model, and the rejection is an error value.
\<close>

datatype cv = Mutable | Const

datatype ill_formed =
    assignment_of_read_only_location
  | constraint_not_satisfied
  | ambiguous_call_of_exchange

definition exchange ::
  "cv \<Rightarrow> 'l \<Rightarrow> 'v \<Rightarrow> ('l \<Rightarrow> 'v) \<Rightarrow> ill_formed + ('v \<times> ('l \<Rightarrow> 'v))" where
  "exchange q dst val s =
     (case q of
        Const \<Rightarrow> Inl assignment_of_read_only_location
      | Mutable \<Rightarrow>
          (let tmp = s dst;
               s' = s(dst := val)
           in Inr (tmp, s')))"

subsection \<open>UniquePtr<T, Deleter> (lines 42-116)\<close>

text \<open>
  The member functions call \<open>exchange\<close> unqualified (lines 62, 77, 85 and 97). Unqualified
  lookup finds \<open>SimpleSTL::exchange\<close>, and argument-dependent lookup adds the functions of
  that name in the namespaces associated with the type of the first argument, a pointer to
  the element type. Line 4 includes \<open><utility>\<close>, which declares \<open>std::exchange\<close> with the same
  parameter list. So when \<open>std\<close> is an associated namespace of the element type
  (\<open>std::string\<close>, say) the call has two equally good candidates and is ill-formed. The
  parameter \<open>std_assoc\<close> of the four functions says whether \<open>std\<close> is an associated namespace
  of the element type of the pointer passed to \<open>exchange\<close>. An ill-formed call rejects the
  member function as a whole when it is instantiated, whatever path a call would take.
\<close>

text \<open>\<open>UniquePtr(std::nullptr_t dummy = nullptr)\<close>, lines 51-53.\<close>

definition UniquePtr_null :: "ref \<Rightarrow> world \<Rightarrow> world" where
  "UniquePtr_null this w = w\<lparr>mem := (mem w)(this := nullptr)\<rparr>"

text \<open>\<open>explicit UniquePtr(T *p)\<close>, lines 55-57.\<close>

definition UniquePtr_ptr :: "ref \<Rightarrow> ptr \<Rightarrow> world \<Rightarrow> world" where
  "UniquePtr_ptr this p w = w\<lparr>mem := (mem w)(this := p)\<rparr>"

text \<open>
  The converting move constructor, lines 60-63. \<open>convertible\<close> is the value of the constraint
  \<open>std::convertible_to<U *, T *>\<close>; \<open>that\<close> is a non-const rvalue reference, so \<open>that.m_p\<close> is
  a mutable lvalue of type \<open>U *\<close>, and \<open>std_assoc\<close> is about \<open>U\<close>. A handle names the managed
  object, which the implicit conversion from \<open>U *\<close> to \<open>T *\<close> does not change.
\<close>

definition UniquePtr_convert ::
  "bool \<Rightarrow> bool \<Rightarrow> ref \<Rightarrow> ref \<Rightarrow> world \<Rightarrow> ill_formed + world" where
  "UniquePtr_convert convertible std_assoc this that w =
     (if \<not> convertible then Inl constraint_not_satisfied
      else if std_assoc then Inl ambiguous_call_of_exchange
      else case exchange Mutable that nullptr (mem w) of
             Inl e \<Rightarrow> Inl e
           | Inr (old, s) \<Rightarrow> Inr (w\<lparr>mem := s(this := old)\<rparr>))"

text \<open>The destructor, lines 65-67.\<close>

definition dtor :: "deleter \<Rightarrow> ref \<Rightarrow> world \<Rightarrow> world" where
  "dtor D this w =
     (if mem w this \<noteq> nullptr then invoke D (mem w this) w else w)"

text \<open>The move constructor, lines 76-78.\<close>

definition UniquePtr_move :: "bool \<Rightarrow> ref \<Rightarrow> ref \<Rightarrow> world \<Rightarrow> ill_formed + world" where
  "UniquePtr_move std_assoc this that w =
     (if std_assoc then Inl ambiguous_call_of_exchange
      else case exchange Mutable that nullptr (mem w) of
             Inl e \<Rightarrow> Inl e
           | Inr (old, s) \<Rightarrow> Inr (w\<lparr>mem := s(this := old)\<rparr>))"

text \<open>Move assignment, lines 81-88.\<close>

definition move_assign ::
  "bool \<Rightarrow> deleter \<Rightarrow> ref \<Rightarrow> ref \<Rightarrow> world \<Rightarrow> ill_formed + world" where
  "move_assign std_assoc D this that w =
     (if std_assoc then Inl ambiguous_call_of_exchange
      else if this \<noteq> that then
        (let w1 = (if mem w this \<noteq> nullptr then invoke D (mem w this) w else w)
         in case exchange Mutable that nullptr (mem w1) of
              Inl e \<Rightarrow> Inl e
            | Inr (old, s) \<Rightarrow> Inr (w1\<lparr>mem := s(this := old)\<rparr>))
      else Inr w)"

text \<open>\<open>get()\<close>, lines 91-93.\<close>

definition get :: "ref \<Rightarrow> world \<Rightarrow> ptr" where
  "get this w = mem w this"

text \<open>
  \<open>release()\<close>, lines 96-98. The member function is declared \<open>const\<close>, so inside it \<open>m_p\<close> is
  a const lvalue, and that is what it hands to \<open>exchange\<close>.
\<close>

definition release :: "bool \<Rightarrow> ref \<Rightarrow> world \<Rightarrow> ill_formed + (ptr \<times> world)" where
  "release std_assoc this w =
     (if std_assoc then Inl ambiguous_call_of_exchange
      else case exchange Const this nullptr (mem w) of
             Inl e \<Rightarrow> Inl e
           | Inr (old, s) \<Rightarrow> Inr (old, w\<lparr>mem := s\<rparr>))"

text \<open>\<open>reset(T *p = nullptr)\<close>, lines 101-105; \<open>reset()\<close> is \<open>reset this nullptr\<close>.\<close>

definition reset :: "deleter \<Rightarrow> ref \<Rightarrow> ptr \<Rightarrow> world \<Rightarrow> world" where
  "reset D this p w =
     (let w1 = (if mem w this \<noteq> nullptr then invoke D (mem w this) w else w)
      in w1\<lparr>mem := (mem w1)(this := p)\<rparr>)"

subsection \<open>Template instantiation (lines 42 and 118-119)\<close>

text \<open>The default template argument \<open>Deleter = DefaultDeleter<T>\<close> of line 42.\<close>

definition default_Deleter :: "ty \<Rightarrow> deleter" where
  "default_Deleter T = DefaultDeleter T"

text \<open>
  The class whose members \<open>UniquePtr<T, Deleter>\<close> has: the partial specialization
  \<open>UniquePtr<T[], Deleter>\<close> of lines 118-119 has an empty body and inherits from
  \<open>UniquePtr<T, Deleter>\<close>, with the same \<open>Deleter\<close>.
\<close>

fun base_class :: "ty \<Rightarrow> deleter \<Rightarrow> ty \<times> deleter" where
  "base_class (Arr T) D = base_class T D"
| "base_class T D = (T, D)"

text \<open>
  Destroying an object of type \<open>UniquePtr<T, Deleter>\<close>: the implicit destructor of the
  specialization runs the destructor of its base.
\<close>

definition destroy :: "ty \<Rightarrow> deleter \<Rightarrow> ref \<Rightarrow> world \<Rightarrow> world" where
  "destroy T D this w = dtor (snd (base_class T D)) this w"

subsection \<open>makeUnique (lines 122-125)\<close>

text \<open>
  The new-expression \<open>new T(args...)\<close>. The allocation function and the constructor of \<open>T\<close>
  are not part of the file and are parameters. \<open>operator_new w\<close> is \<open>None\<close> when the
  allocation function throws \<open>std::bad_alloc\<close>, and otherwise the pointer it returns. An
  allocation function declared \<open>noexcept\<close> (a class may have its own) reports failure by
  returning null: the new-expression is then null and no constructor runs. An allocation
  function that may throw does not return null. \<open>T_ctor args\<close> is the exception the
  constructor throws, if any. When the constructor throws, the new-expression calls the
  deallocation function on the storage before the exception leaves it.
\<close>

datatype exn = bad_alloc | ctor_exception string

definition new_expr ::
  "(world \<Rightarrow> ptr option) \<Rightarrow> ('args \<Rightarrow> exn option) \<Rightarrow> 'args \<Rightarrow> world \<Rightarrow> (exn + ptr) \<times> world" where
  "new_expr operator_new T_ctor args w =
     (case operator_new w of
        None \<Rightarrow> (Inl bad_alloc, w)
      | Some p \<Rightarrow>
          (if p = nullptr then (Inr nullptr, w)
           else
             (let w1 = w\<lparr>heap := insert p (heap w)\<rparr>
              in case T_ctor args of
                   Some e \<Rightarrow> (Inl e, w1\<lparr>heap := heap w1 - {p}\<rparr>)
                 | None \<Rightarrow> (Inr p, w1))))"

text \<open>
  \<open>makeUnique\<close> returns a prvalue, which is constructed in the caller's object at \<open>result\<close>.
  An exception of the new-expression leaves the function before the constructor of
  \<open>UniquePtr\<close> is entered.
\<close>

definition makeUnique ::
  "(world \<Rightarrow> ptr option) \<Rightarrow> ('args \<Rightarrow> exn option) \<Rightarrow> 'args \<Rightarrow> ref \<Rightarrow> world \<Rightarrow> (exn + ref) \<times> world" where
  "makeUnique operator_new T_ctor args result w =
     (case new_expr operator_new T_ctor args w of
        (Inl e, w') \<Rightarrow> (Inl e, w')
      | (Inr p, w') \<Rightarrow> (Inr result, UniquePtr_ptr result p w'))"

subsection \<open>Inputs to run the operations on\<close>

text \<open>No instance holds a handle, the policy has not been invoked, nothing is allocated.\<close>

definition start :: world where
  "start = \<lparr>mem = (\<lambda>r. nullptr), calls = [], heap = {}\<rparr>"

text \<open>
  A class \<open>Widget\<close> with a constructor \<open>Widget(int)\<close> that does not throw and an allocation
  function \<open>static void *operator new(std::size_t) noexcept\<close> that has no storage left.
\<close>

definition Widget_operator_new :: "world \<Rightarrow> ptr option" where
  "Widget_operator_new w = Some nullptr"

definition Widget_ctor :: "int \<Rightarrow> exn option" where
  "Widget_ctor n = None"

section \<open>Properties\<close>

subsection \<open>Auxiliary facts\<close>

lemma base_class_deleter: "snd (base_class T D) = D"
  by (induction T D rule: base_class.induct) simp_all

lemma exchange_Mutable_eq: "exchange Mutable dst val s = Inr (s dst, s(dst := val))"
  by (simp add: exchange_def)

lemma exchange_Const_eq: "exchange Const dst val s = Inl assignment_of_read_only_location"
  by (simp add: exchange_def)

lemma calls_invoke: "calls (invoke D p w) = calls w @ [(D, p)]"
  by (simp add: invoke_def)

lemma mem_invoke: "mem (invoke D p w) = mem w"
  by (simp add: invoke_def)

subsection \<open>The ownership-transfer primitive\<close>

text \<open>
  C8. For a mutable location \<open>dst\<close> and a value \<open>val\<close>, \<open>exchange\<close> returns the value \<open>dst\<close> held
  before the call, and the store after the call is the store before it with the single
  assignment of \<open>val\<close> to \<open>dst\<close>: \<open>dst\<close> holds \<open>val\<close> and every other location keeps its value.
\<close>

theorem exchange_mutable:
  assumes "q = Mutable"
  shows "\<exists>s'. exchange q dst val s = Inr (s dst, s')
           \<and> s' = s(dst := val)
           \<and> s' dst = val
           \<and> (\<forall>l. l \<noteq> dst \<longrightarrow> s' l = s l)"
  using assms by (simp add: exchange_Mutable_eq)

theorem exchange_mutable_witness:
  "\<exists>s'. exchange Mutable (1::nat) (0::nat) ((\<lambda>_. 0)(1 := 5, 2 := 9)) = Inr (5, s')
     \<and> s' 1 = 0 \<and> s' 2 = 9"
  using exchange_mutable [of Mutable "1::nat" "0::nat" "(\<lambda>_. 0)(1 := 5, 2 := 9)"] by simp

subsection \<open>Destruction\<close>

text \<open>
  C1. Destroying an instance of any \<open>UniquePtr<T, Deleter>\<close> adds exactly one invocation of
  \<open>Deleter\<close>, on the held handle, when the handle is not null, and none when it is null. In
  particular an instance constructed from a non-null handle and then destroyed has the
  policy invoked once on that handle, and an instance constructed with no handle has no
  invocation when it is destroyed, when it is reset (to any handle), and when \<open>release()\<close> is
  attempted on it.
\<close>

theorem destruction_invokes_policy_once:
  "calls (destroy T D this w)
     = calls w @ (if mem w this \<noteq> nullptr then [(D, mem w this)] else [])
   \<and> calls (destroy T D this (UniquePtr_ptr this h w))
     = calls w @ (if h \<noteq> nullptr then [(D, h)] else [])
   \<and> calls (destroy T D this (UniquePtr_null this w)) = calls w
   \<and> calls (reset D this p (UniquePtr_null this w)) = calls w
   \<and> (case release std_assoc this (UniquePtr_null this w) of
         Inl e \<Rightarrow> calls (UniquePtr_null this w)
       | Inr (h', w') \<Rightarrow> calls w') = calls w"
  by (simp add: destroy_def base_class_deleter dtor_def calls_invoke UniquePtr_ptr_def
      UniquePtr_null_def reset_def release_def exchange_Const_eq)

theorem destruction_invokes_policy_once_witness:
  "calls (destroy (Class ''Widget'') (DefaultDeleter (Class ''Widget'')) 1
            \<lparr>mem = (\<lambda>_. nullptr)(1 := 7), calls = [], heap = {7}\<rparr>)
     = [(DefaultDeleter (Class ''Widget''), 7)]
   \<and> calls (destroy (Class ''Widget'') (DefaultDeleter (Class ''Widget'')) 1
            \<lparr>mem = (\<lambda>_. nullptr), calls = [], heap = {}\<rparr>) = []"
  using destruction_invokes_policy_once
          [of "Class ''Widget''" "DefaultDeleter (Class ''Widget'')" 1
              "\<lparr>mem = (\<lambda>_. nullptr)(1 := 7), calls = [], heap = {7}\<rparr>"]
        destruction_invokes_policy_once
          [of "Class ''Widget''" "DefaultDeleter (Class ''Widget'')" 1
              "\<lparr>mem = (\<lambda>_. nullptr), calls = [], heap = {}\<rparr>"]
  by (simp add: nullptr_def)

subsection \<open>Move construction\<close>

text \<open>
  Away from the ambiguous call, move construction does what is intended. When \<open>std\<close> is not
  an associated namespace of the element type, \<open>a\<close> holds a non-null handle \<open>H\<close> and \<open>b\<close> is
  move-constructed from \<open>a\<close>, by the move constructor or by the converting move constructor
  (whose constraint holds), then afterwards \<open>a.get()\<close> is null and \<open>b.get()\<close> is \<open>H\<close>, and the
  policy has not been invoked.
\<close>

theorem move_construct_transfers:
  assumes "\<not> std_assoc"
    and "b \<noteq> a" and "mem w a = H" and "H \<noteq> nullptr" and "convertible"
  shows "(\<exists>w'. UniquePtr_move std_assoc b a w = Inr w'
            \<and> get a w' = nullptr \<and> get b w' = H \<and> calls w' = calls w)
       \<and> (\<exists>w'. UniquePtr_convert convertible std_assoc b a w = Inr w'
            \<and> get a w' = nullptr \<and> get b w' = H \<and> calls w' = calls w)"
  using assms
  by (simp add: UniquePtr_move_def UniquePtr_convert_def exchange_Mutable_eq get_def)

theorem move_construct_transfers_witness:
  "(\<exists>w'. UniquePtr_move False 2 1 \<lparr>mem = (\<lambda>_. nullptr)(1 := 7), calls = [], heap = {7}\<rparr>
             = Inr w'
      \<and> get 1 w' = nullptr \<and> get 2 w' = 7 \<and> calls w' = [])
   \<and> (\<exists>w'. UniquePtr_convert True False 2 1
              \<lparr>mem = (\<lambda>_. nullptr)(1 := 7), calls = [], heap = {7}\<rparr> = Inr w'
      \<and> get 1 w' = nullptr \<and> get 2 w' = 7 \<and> calls w' = [])"
  using move_construct_transfers
          [of False 2 1 "\<lparr>mem = (\<lambda>_. nullptr)(1 := 7), calls = [], heap = {7}\<rparr>" 7 True]
  by (simp add: nullptr_def)

text \<open>
  C2. The property fails for an element type that has \<open>std\<close> as an associated namespace:
  \<open>UniquePtr<std::string> a(h)\<close> with the non-null handle \<open>h = 7\<close>, then
  \<open>UniquePtr<std::string> b(std::move(a))\<close>, and likewise the converting move constructor
  from such a source. The call of \<open>exchange\<close> is ambiguous, so the construction is rejected
  and no handle is transferred.
\<close>

theorem move_construct_std_rejected:
  "UniquePtr_move True 2 1 (UniquePtr_ptr 1 7 start) = Inl ambiguous_call_of_exchange
   \<and> UniquePtr_convert True True 2 1 (UniquePtr_ptr 1 7 start)
       = Inl ambiguous_call_of_exchange"
  by (simp add: UniquePtr_move_def UniquePtr_convert_def)

text \<open>
  Away from the ambiguous call, moving from an empty source is inert. When \<open>std\<close> is not an
  associated namespace of the element type and \<open>a\<close> holds null, move-constructing \<open>b\<close> from
  \<open>a\<close> (by either move constructor) leaves \<open>a.get()\<close> and \<open>b.get()\<close> null with no invocation
  of the policy; move-assigning \<open>a\<close> into a distinct instance \<open>c\<close> invokes the policy on what
  \<open>c\<close> held, if that is not null, and on nothing else, and leaves \<open>c\<close> and \<open>a\<close> holding null.
\<close>

theorem move_from_empty_inert:
  assumes "\<not> std_assoc"
    and "mem w a = nullptr" and "convertible" and "c \<noteq> a"
  shows "(\<exists>w'. UniquePtr_move std_assoc b a w = Inr w'
            \<and> get a w' = nullptr \<and> get b w' = nullptr \<and> calls w' = calls w)
       \<and> (\<exists>w'. UniquePtr_convert convertible std_assoc b a w = Inr w'
            \<and> get a w' = nullptr \<and> get b w' = nullptr \<and> calls w' = calls w)
       \<and> (\<exists>w'. move_assign std_assoc D c a w = Inr w'
            \<and> calls w' = calls w @ (if mem w c \<noteq> nullptr then [(D, mem w c)] else [])
            \<and> get c w' = nullptr \<and> get a w' = nullptr)"
  using assms
  by (auto simp add: UniquePtr_move_def UniquePtr_convert_def move_assign_def Let_def
      exchange_Mutable_eq get_def calls_invoke mem_invoke)

theorem move_from_empty_inert_witness:
  "(\<exists>w'. UniquePtr_move False 2 1 \<lparr>mem = (\<lambda>_. nullptr)(3 := 9), calls = [], heap = {9}\<rparr>
             = Inr w'
      \<and> get 1 w' = nullptr \<and> get 2 w' = nullptr \<and> calls w' = [])
   \<and> (\<exists>w'. move_assign False (UserDeleter ''D'') 3 1
             \<lparr>mem = (\<lambda>_. nullptr)(3 := 9), calls = [], heap = {9}\<rparr> = Inr w'
      \<and> calls w' = [(UserDeleter ''D'', 9)] \<and> get 3 w' = nullptr \<and> get 1 w' = nullptr)"
  using move_from_empty_inert
          [of False "\<lparr>mem = (\<lambda>_. nullptr)(3 := 9), calls = [], heap = {9}\<rparr>" 1 True 3 2
              "UserDeleter ''D''"]
  by (simp add: nullptr_def)

text \<open>
  C10. The property fails for an element type that has \<open>std\<close> as an associated namespace:
  \<open>UniquePtr<std::string> a;\<close> (holding null) and \<open>UniquePtr<std::string> c(h)\<close> with
  \<open>h = 9\<close>; then \<open>UniquePtr<std::string> b(std::move(a))\<close>, and \<open>c = std::move(a)\<close>. Both are
  rejected for the ambiguous call of \<open>exchange\<close>, although the source is empty: nothing is
  constructed, released or assigned.
\<close>

theorem move_from_empty_std_rejected:
  "UniquePtr_move True 2 1 (UniquePtr_ptr 3 9 (UniquePtr_null 1 start))
     = Inl ambiguous_call_of_exchange
   \<and> UniquePtr_convert True True 2 1 (UniquePtr_ptr 3 9 (UniquePtr_null 1 start))
     = Inl ambiguous_call_of_exchange
   \<and> move_assign True (DefaultDeleter (Class ''std::string'')) 3 1
       (UniquePtr_ptr 3 9 (UniquePtr_null 1 start))
     = Inl ambiguous_call_of_exchange"
  by (simp add: UniquePtr_move_def UniquePtr_convert_def move_assign_def)

subsection \<open>Move assignment\<close>

text \<open>
  Away from the ambiguous call, move assignment does what is intended. When \<open>std\<close> is not an
  associated namespace of the element type, move assignment between distinct instances
  invokes the policy on the handle \<open>this\<close> held exactly when that handle is not null (and
  makes no other invocation), stores the handle of \<open>other\<close> into \<open>this\<close>, leaves \<open>other\<close> null
  and touches no third instance. Move assignment of an instance to itself returns the
  state unchanged.
\<close>

theorem move_assign_releases_then_transfers:
  assumes "\<not> std_assoc"
  shows "(this \<noteq> other \<longrightarrow>
      (\<exists>w'. move_assign std_assoc D this other w = Inr w'
         \<and> calls w' = calls w @ (if mem w this \<noteq> nullptr then [(D, mem w this)] else [])
         \<and> get this w' = mem w other
         \<and> get other w' = nullptr
         \<and> (\<forall>r. r \<noteq> this \<and> r \<noteq> other \<longrightarrow> mem w' r = mem w r)))
   \<and> move_assign std_assoc D this this w = Inr w"
  using assms
  by (simp add: move_assign_def Let_def exchange_Mutable_eq get_def calls_invoke mem_invoke)

theorem move_assign_releases_then_transfers_witness:
  "(\<exists>w'. move_assign False (UserDeleter ''D'') 1 2
            \<lparr>mem = (\<lambda>_. nullptr)(1 := 7, 2 := 8), calls = [], heap = {7, 8}\<rparr> = Inr w'
      \<and> calls w' = [(UserDeleter ''D'', 7)] \<and> get 1 w' = 8 \<and> get 2 w' = nullptr)
   \<and> (\<exists>w'. move_assign False (UserDeleter ''D'') 1 2
            \<lparr>mem = (\<lambda>_. nullptr)(2 := 8), calls = [], heap = {8}\<rparr> = Inr w'
      \<and> calls w' = [] \<and> get 1 w' = 8 \<and> get 2 w' = nullptr)
   \<and> move_assign False (UserDeleter ''D'') 1 1
        \<lparr>mem = (\<lambda>_. nullptr)(1 := 7), calls = [], heap = {7}\<rparr>
      = Inr \<lparr>mem = (\<lambda>_. nullptr)(1 := 7), calls = [], heap = {7}\<rparr>"
  using move_assign_releases_then_transfers
          [of False 1 2 "UserDeleter ''D''"
              "\<lparr>mem = (\<lambda>_. nullptr)(1 := 7, 2 := 8), calls = [], heap = {7, 8}\<rparr>"]
        move_assign_releases_then_transfers
          [of False 1 2 "UserDeleter ''D''"
              "\<lparr>mem = (\<lambda>_. nullptr)(2 := 8), calls = [], heap = {8}\<rparr>"]
        move_assign_releases_then_transfers
          [of False 1 2 "UserDeleter ''D''"
              "\<lparr>mem = (\<lambda>_. nullptr)(1 := 7), calls = [], heap = {7}\<rparr>"]
  by (auto simp add: nullptr_def)

text \<open>
  C4. The property fails for an element type that has \<open>std\<close> as an associated namespace:
  \<open>UniquePtr<std::string> x(h1), y(h2)\<close> with \<open>h1 = 7\<close> and \<open>h2 = 8\<close>; then \<open>x = std::move(y)\<close>,
  and the self-assignment \<open>x = std::move(x)\<close>. The assignment operator is rejected for the
  ambiguous call of \<open>exchange\<close>, self-assignment included: nothing is released and nothing
  is transferred.
\<close>

theorem move_assign_std_rejected:
  "move_assign True (DefaultDeleter (Class ''std::string'')) 1 2
       (UniquePtr_ptr 2 8 (UniquePtr_ptr 1 7 start))
     = Inl ambiguous_call_of_exchange
   \<and> move_assign True (DefaultDeleter (Class ''std::string'')) 1 1
       (UniquePtr_ptr 2 8 (UniquePtr_ptr 1 7 start))
     = Inl ambiguous_call_of_exchange"
  by (simp add: move_assign_def)

subsection \<open>reset\<close>

text \<open>
  C6. \<open>a.reset(H2)\<close> invokes the policy exactly once, on the handle \<open>H1\<close> that \<open>a\<close> holds, when
  \<open>H1\<close> is not null, and not at all when \<open>a\<close> holds null; in both cases \<open>a.get()\<close> is \<open>H2\<close>
  afterwards, and after \<open>reset()\<close> with no argument it is null.
\<close>

theorem reset_releases_old_adopts_new:
  "calls (reset D a H2 w)
     = calls w @ (if mem w a \<noteq> nullptr then [(D, mem w a)] else [])
   \<and> get a (reset D a H2 w) = H2
   \<and> get a (reset D a nullptr w) = nullptr"
  by (simp add: reset_def Let_def get_def calls_invoke)

theorem reset_releases_old_adopts_new_witness:
  "calls (reset (UserDeleter ''D'') 1 8
            \<lparr>mem = (\<lambda>_. nullptr)(1 := 7), calls = [], heap = {7, 8}\<rparr>)
     = [(UserDeleter ''D'', 7)]
   \<and> get 1 (reset (UserDeleter ''D'') 1 8
            \<lparr>mem = (\<lambda>_. nullptr)(1 := 7), calls = [], heap = {7, 8}\<rparr>) = 8
   \<and> calls (reset (UserDeleter ''D'') 1 8
            \<lparr>mem = (\<lambda>_. nullptr), calls = [], heap = {8}\<rparr>) = []"
  using reset_releases_old_adopts_new
          [of "UserDeleter ''D''" 1 8
              "\<lparr>mem = (\<lambda>_. nullptr)(1 := 7), calls = [], heap = {7, 8}\<rparr>"]
        reset_releases_old_adopts_new
          [of "UserDeleter ''D''" 1 8
              "\<lparr>mem = (\<lambda>_. nullptr), calls = [], heap = {8}\<rparr>"]
  by (simp add: nullptr_def)

text \<open>
  C9. \<open>reset\<close> has no check for the handle it already owns: when \<open>a\<close> holds a non-null handle
  \<open>H\<close>, \<open>a.reset(H)\<close> invokes the policy on \<open>H\<close> and \<open>a.get()\<close> is still \<open>H\<close>, and destroying \<open>a\<close>
  afterwards invokes the policy on \<open>H\<close> again: two invocations on \<open>H\<close> in all.
\<close>

theorem reset_same_handle_releases_twice:
  assumes "mem w a = H" and "H \<noteq> nullptr"
  shows "calls (reset D a H w) = calls w @ [(D, H)]
       \<and> get a (reset D a H w) = H
       \<and> calls (dtor D a (reset D a H w)) = calls w @ [(D, H), (D, H)]
       \<and> length (filter (\<lambda>c. c = (D, H)) (calls (dtor D a (reset D a H w))))
           = length (filter (\<lambda>c. c = (D, H)) (calls w)) + 2"
  using assms by (simp add: reset_def Let_def dtor_def get_def calls_invoke mem_invoke)

theorem reset_same_handle_releases_twice_witness:
  "calls (dtor (UserDeleter ''D'') 1
       (reset (UserDeleter ''D'') 1 7
          \<lparr>mem = (\<lambda>_. nullptr)(1 := 7), calls = [], heap = {7}\<rparr>))
     = [(UserDeleter ''D'', 7), (UserDeleter ''D'', 7)]"
  using reset_same_handle_releases_twice
          [of "\<lparr>mem = (\<lambda>_. nullptr)(1 := 7), calls = [], heap = {7}\<rparr>" 1 7
              "UserDeleter ''D''"]
  by (simp add: nullptr_def)

subsection \<open>release\<close>

text \<open>
  C5. \<open>release()\<close> is declared \<open>const\<close> and passes \<open>m_p\<close> to \<open>exchange\<close>, which assigns to it: the
  call is rejected instead of returning the handle and leaving the instance null. Here for
  an instance of \<open>UniquePtr<int>\<close> that holds the handle 7.
\<close>

theorem release_const_rejected:
  "release False 1 (UniquePtr_ptr 1 7 start) = Inl assignment_of_read_only_location"
  by (simp add: release_def exchange_Const_eq)

subsection \<open>The array specialization\<close>

text \<open>
  C3, as the specification states it, fails: \<open>UniquePtr<int[]> p; p.reset(h);\<close> with the
  handle \<open>h = 7\<close>, then the destruction of \<open>p\<close>. The policy invoked is \<open>DefaultDeleter<int[]>\<close>,
  whose body is \<open>delete[] p\<close>, not the single-object \<open>delete p\<close>.
\<close>

theorem array_destruction_counterexample:
  "calls (destroy (Arr (Class ''int'')) (default_Deleter (Arr (Class ''int''))) 1
            (reset (default_Deleter (Arr (Class ''int''))) 1 7 (UniquePtr_null 1 start)))
     = [(DefaultDeleter (Arr (Class ''int'')), 7)]
   \<and> deleter_call (DefaultDeleter (Arr (Class ''int''))) = delete_array
   \<and> deleter_call (DefaultDeleter (Arr (Class ''int''))) \<noteq> delete_single"
  by (simp add: destroy_def dtor_def reset_def Let_def UniquePtr_null_def start_def
      default_Deleter_def invoke_def nullptr_def)

text \<open>
  C3, amended. For \<open>UniquePtr<T[]>\<close> with the default policy argument, the policy is
  \<open>DefaultDeleter<T[]>\<close>; the specialization inherits the members of
  \<open>UniquePtr<T, DefaultDeleter<T[]>>\<close>, and destroying an instance that holds a non-null
  handle invokes that policy once on the handle; its body is the array release \<open>delete[]\<close>.
\<close>

theorem array_specialization_uses_array_policy:
  assumes "mem w this \<noteq> nullptr"
  shows "default_Deleter (Arr T) = DefaultDeleter (Arr T)
       \<and> base_class (Arr T) (default_Deleter (Arr T)) = base_class T (DefaultDeleter (Arr T))
       \<and> calls (destroy (Arr T) (default_Deleter (Arr T)) this w)
           = calls w @ [(DefaultDeleter (Arr T), mem w this)]
       \<and> deleter_call (DefaultDeleter (Arr T)) = delete_array"
  using assms
  by (simp add: destroy_def base_class_deleter dtor_def calls_invoke default_Deleter_def)

theorem array_specialization_uses_array_policy_witness:
  "calls (destroy (Arr FILE) (default_Deleter (Arr FILE)) 2 (UniquePtr_ptr 2 5 start))
     = [(DefaultDeleter (Arr FILE), 5)]
   \<and> deleter_call (DefaultDeleter (Arr FILE)) = delete_array"
  using array_specialization_uses_array_policy [of "UniquePtr_ptr 2 5 start" 2 FILE]
  by (auto simp add: UniquePtr_ptr_def start_def nullptr_def)

subsection \<open>makeUnique\<close>

text \<open>
  C7, as the specification states it, fails: \<open>makeUnique<Widget>(42)\<close> when the allocation
  function of \<open>Widget\<close> is declared \<open>noexcept\<close> and fails by returning null. The allocation
  has failed, but nothing propagates: \<open>makeUnique\<close> returns normally, and the instance it
  returns holds null.
\<close>

theorem makeUnique_null_allocation_counterexample:
  "fst (makeUnique Widget_operator_new Widget_ctor 42 1 start) = Inr 1
   \<and> get 1 (snd (makeUnique Widget_operator_new Widget_ctor 42 1 start)) = nullptr"
  by (simp add: makeUnique_def new_expr_def Widget_operator_new_def UniquePtr_ptr_def
      get_def)

text \<open>
  C7, amended. \<open>makeUnique\<close> evaluates \<open>new T(args...)\<close> and returns an instance whose handle
  is the value of that new-expression. When the allocation function returns storage and
  the constructor returns, the handle is that newly allocated, non-null object, and the
  policy has not been invoked. When the allocation function throws, or the constructor of
  \<open>T\<close> throws \<open>e\<close>, that exception reaches the caller unchanged, no instance has been
  constructed and the storage of this call is not left allocated. When the allocation
  function reports failure by returning null, nothing propagates, no constructor runs and
  the instance returned holds null.
\<close>

theorem makeUnique_wraps_new_expression:
  "(operator_new w = Some p \<and> p \<noteq> nullptr \<and> T_ctor args = None \<longrightarrow>
      (\<exists>w'. makeUnique operator_new T_ctor args result w = (Inr result, w')
         \<and> get result w' = p \<and> get result w' \<noteq> nullptr
         \<and> heap w' = insert p (heap w)
         \<and> calls w' = calls w))
   \<and> (operator_new w = None \<longrightarrow>
        makeUnique operator_new T_ctor args result w = (Inl bad_alloc, w))
   \<and> (operator_new w = Some p \<and> p \<noteq> nullptr \<and> T_ctor args = Some e \<longrightarrow>
      (\<exists>w'. makeUnique operator_new T_ctor args result w = (Inl e, w')
         \<and> mem w' = mem w \<and> calls w' = calls w
         \<and> heap w' = heap w - {p} \<and> heap w' \<subseteq> heap w))
   \<and> (operator_new w = Some nullptr \<longrightarrow>
      (\<exists>w'. makeUnique operator_new T_ctor args result w = (Inr result, w')
         \<and> get result w' = nullptr
         \<and> heap w' = heap w
         \<and> calls w' = calls w))"
proof (intro conjI impI)
  assume "operator_new w = Some p \<and> p \<noteq> nullptr \<and> T_ctor args = None"
  then show "\<exists>w'. makeUnique operator_new T_ctor args result w = (Inr result, w')
         \<and> get result w' = p \<and> get result w' \<noteq> nullptr
         \<and> heap w' = insert p (heap w)
         \<and> calls w' = calls w"
    by (simp add: makeUnique_def new_expr_def Let_def UniquePtr_ptr_def get_def)
next
  assume "operator_new w = None"
  then show "makeUnique operator_new T_ctor args result w = (Inl bad_alloc, w)"
    by (simp add: makeUnique_def new_expr_def)
next
  assume "operator_new w = Some p \<and> p \<noteq> nullptr \<and> T_ctor args = Some e"
  then show "\<exists>w'. makeUnique operator_new T_ctor args result w = (Inl e, w')
         \<and> mem w' = mem w \<and> calls w' = calls w
         \<and> heap w' = heap w - {p} \<and> heap w' \<subseteq> heap w"
    by (auto simp add: makeUnique_def new_expr_def Let_def)
next
  assume "operator_new w = Some nullptr"
  then show "\<exists>w'. makeUnique operator_new T_ctor args result w = (Inr result, w')
         \<and> get result w' = nullptr
         \<and> heap w' = heap w
         \<and> calls w' = calls w"
    by (simp add: makeUnique_def new_expr_def UniquePtr_ptr_def get_def)
qed

theorem makeUnique_wraps_new_expression_witness:
  "(\<exists>w'. makeUnique (\<lambda>w. Some 7) (\<lambda>n. None) (42::int) 1 start = (Inr 1, w')
      \<and> get 1 w' = 7 \<and> heap w' = {7} \<and> calls w' = [])
   \<and> makeUnique (\<lambda>w. None) (\<lambda>n. None) (42::int) 1 start = (Inl bad_alloc, start)
   \<and> (\<exists>w'. makeUnique (\<lambda>w. Some 7) (\<lambda>n. Some (ctor_exception ''bad argument'')) (42::int)
              1 start = (Inl (ctor_exception ''bad argument''), w')
      \<and> mem w' = mem start \<and> calls w' = [] \<and> heap w' = {})
   \<and> (\<exists>w'. makeUnique Widget_operator_new Widget_ctor 42 1 start = (Inr 1, w')
      \<and> get 1 w' = nullptr \<and> heap w' = {} \<and> calls w' = [])"
  using makeUnique_wraps_new_expression
          [of "\<lambda>w. Some 7" start 7 "\<lambda>n. None" "42::int" 1]
        makeUnique_wraps_new_expression
          [of "\<lambda>w. None" start 7 "\<lambda>n. None" "42::int" 1]
        makeUnique_wraps_new_expression
          [of "\<lambda>w. Some 7" start 7 "\<lambda>n. Some (ctor_exception ''bad argument'')" "42::int" 1
              "ctor_exception ''bad argument''"]
        makeUnique_wraps_new_expression
          [of Widget_operator_new start 7 Widget_ctor 42 1]
  by (auto simp add: start_def nullptr_def Widget_operator_new_def)

end
